theory Spec2Isabelle
  imports Complex_Main "HOL-Library.Multiset"
begin

section \<open>Values, errors and Python primitives\<close>

text \<open>
  The recommender of \<^verbatim>\<open>utils/recommender.py\<close> and its predecessor
  \<^verbatim>\<open>recommend_movies\<close> of the top-level \<^verbatim>\<open>app.py\<close> are embedded as HOL functions.
  Similarity scores are \<^verbatim>\<open>float32\<close> values in the source; they are modelled by the
  real numbers they denote (no NaN arises from finite vectors), so every comparison,
  \<^verbatim>\<open>min\<close> and sort of the source is the one on \<^typ>\<open>real\<close>. Row labels are
  \<^verbatim>\<open>int64\<close> values and can be negative, hence \<^typ>\<open>int\<close>.
\<close>

type_synonym vec = "real list"

datatype py_error = ValueError string | IndexError | KeyError | AssertionError

text \<open>\<^verbatim>\<open>list.index(x)\<close>: the first position of \<open>x\<close>. The source only calls it under
  the guard \<^verbatim>\<open>i in set1\<close>, where it cannot raise.\<close>

fun list_index :: "'a list \<Rightarrow> 'a \<Rightarrow> nat" where
  "list_index [] x = 0"
| "list_index (y # ys) x = (if y = x then 0 else Suc (list_index ys x))"

text \<open>\<^verbatim>\<open>sorted(xs, key=key, reverse=True)\<close>: descending by key and stable, that is,
  elements with equal keys keep the order they have in \<open>xs\<close>.\<close>

definition sorted_reverse :: "('a \<Rightarrow> 'k::linorder) \<Rightarrow> 'a list \<Rightarrow> 'a list" where
  "sorted_reverse key xs = rev (sort_key key (rev xs))"

text \<open>The slice \<^verbatim>\<open>xs[:n]\<close>; a negative \<open>n\<close> counts from the end.\<close>

definition py_prefix :: "int \<Rightarrow> 'a list \<Rightarrow> 'a list" where
  "py_prefix n xs = (if 0 \<le> n then take (nat n) xs else take (length xs - nat (- n)) xs)"

text \<open>\<^verbatim>\<open>str.split()\<close> without arguments: maximal runs of non-whitespace characters.\<close>

definition is_space :: "char \<Rightarrow> bool" where
  "is_space c \<longleftrightarrow> c \<in> set [CHR '' '', CHR 0x09, CHR 0x0A, CHR 0x0B, CHR 0x0C, CHR 0x0D,
                           CHR 0x1C, CHR 0x1D, CHR 0x1E, CHR 0x1F]"

fun split_acc :: "string \<Rightarrow> string \<Rightarrow> string list" where
  "split_acc w [] = (if w = [] then [] else [w])"
| "split_acc w (c # cs) =
     (if is_space c then (if w = [] then split_acc [] cs else w # split_acc [] cs)
      else split_acc (w @ [c]) cs)"

definition py_split :: "string \<Rightarrow> string list" where
  "py_split s = split_acc [] s"

text \<open>\<^verbatim>\<open>DataFrame.iloc[ks]\<close> with a list of positions: a negative position counts from
  the end, a position outside \<open>[-n, n)\<close> raises \<^verbatim>\<open>IndexError\<close>.\<close>

definition iloc :: "'a list \<Rightarrow> int list \<Rightarrow> py_error + 'a list" where
  "iloc df ks =
     (let n = int (length df)
      in if list_all (\<lambda>k. - n \<le> k \<and> k < n) ks
         then Inr (map (\<lambda>k. df ! nat (if k < 0 then n + k else k)) ks)
         else Inl IndexError)"

text \<open>\<^verbatim>\<open>DataFrame.loc[idx, column]\<close> on the frame's default range index: the label is
  the position, an absent label raises \<^verbatim>\<open>KeyError\<close>.\<close>

definition loc :: "'a list \<Rightarrow> nat \<Rightarrow> py_error + 'a" where
  "loc df idx = (if idx < length df then Inr (df ! idx) else Inl KeyError)"

section \<open>The flat inner-product index\<close>

text \<open>
  \<^verbatim>\<open>faiss.IndexFlatIP\<close> is a library class: \<^verbatim>\<open>_build_index\<close> creates it with the
  row width of the embedding matrix and adds every row. Its \<^verbatim>\<open>search(q, k)\<close> is the
  exhaustive search of the library's documentation: it scores every stored row by its
  inner product with the query and returns two arrays of exactly \<open>k\<close> entries, best
  first; when fewer than \<open>k\<close> rows are stored, the missing entries carry the label
  \<open>-1\<close> and the lowest \<^verbatim>\<open>float32\<close> as score. The order among rows of equal score is
  the library's own; the model lists them by ascending row. No statement below relies
  on that: the general theorems hold for any order, and in the example catalogues no
  two rows are equally similar to a query.
\<close>

record faiss_index =
  faiss_d :: nat
  faiss_xb :: "vec list"

definition inner_product :: "vec \<Rightarrow> vec \<Rightarrow> real" where
  "inner_product q v = sum_list (map2 (*) q v)"

definition FLT_LOWEST :: real where
  "FLT_LOWEST = - 340282346638528859811704183484516925440"

text \<open>Every stored row with its score, in storage order.\<close>

definition scored_rows :: "vec list \<Rightarrow> vec \<Rightarrow> (real \<times> int) list" where
  "scored_rows xb q = map (\<lambda>i. (inner_product q (xb ! i), int i)) [0..<length xb]"

definition index_search :: "faiss_index \<Rightarrow> vec \<Rightarrow> nat \<Rightarrow> py_error + (real list \<times> int list)" where
  "index_search ix q k =
     (if length q \<noteq> faiss_d ix \<or> k = 0 then Inl AssertionError
      else
        let scored = scored_rows (faiss_xb ix) q;
            best = take k (sorted_reverse fst scored);
            res = best @ replicate (k - length best) (FLT_LOWEST, - 1)
        in Inr (map fst res, map snd res))"

section \<open>EmbeddingManager\<close>

record embedding_manager =
  embeddings :: "vec list"
  index :: faiss_index
  id_to_index :: "int \<rightharpoonup> nat"

text \<open>\<^verbatim>\<open>_build_index\<close>: the width is \<^verbatim>\<open>embeddings.shape[1]\<close>.\<close>

definition build_index :: "vec list \<Rightarrow> faiss_index" where
  "build_index embs = \<lparr>faiss_d = (case embs of [] \<Rightarrow> 0 | v # _ \<Rightarrow> length v), faiss_xb = embs\<rparr>"

text \<open>The dictionary comprehension of \<^verbatim>\<open>build_embeddings\<close>: a later row overwrites an
  earlier one with the same identifier.\<close>

definition build_id_to_index :: "int list \<Rightarrow> (int \<rightharpoonup> nat)" where
  "build_id_to_index movie_ids =
     fold (\<lambda>(idx, mid) m. m(mid \<mapsto> idx)) (zip [0..<length movie_ids] movie_ids) Map.empty"

text \<open>\<^verbatim>\<open>build_embeddings\<close>; the vectors themselves come from the sentence encoder or
  its cache file and are taken as given.\<close>

definition build_embeddings :: "vec list \<Rightarrow> int list \<Rightarrow> embedding_manager" where
  "build_embeddings embs movie_ids =
     \<lparr>embeddings = embs, index = build_index embs, id_to_index = build_id_to_index movie_ids\<rparr>"

definition search_similar ::
  "embedding_manager \<Rightarrow> vec \<Rightarrow> nat \<Rightarrow> py_error + (real list \<times> int list)" where
  "search_similar em query_embedding k = index_search (index em) query_embedding k"

section \<open>MovieRecommender\<close>

record movie =
  movie_id :: int
  title :: string
  overview :: string
  vote_average :: real
  genres_str :: string

record recommendation = movie +
  genre_score :: real

record movie_recommender =
  emb_manager :: embedding_manager
  movies_df :: "movie list"

text \<open>
  \<^verbatim>\<open>list(set1 | set2)\<close>: Python does not fix the order in which a set is iterated
  (CPython follows the slots of its hash table, which depend on the values and on the
  order of insertion). The order is therefore a parameter of the model: a function from
  the two label arrays to a list that enumerates their union once each.
\<close>

type_synonym set_iteration = "int list \<Rightarrow> int list \<Rightarrow> int list"

definition is_set_union :: "set_iteration \<Rightarrow> bool" where
  "is_set_union it \<longleftrightarrow> (\<forall>xs ys. distinct (it xs ys) \<and> set (it xs ys) = set xs \<union> set ys)"

definition blended_score :: "real list \<Rightarrow> int list \<Rightarrow> real list \<Rightarrow> int list \<Rightarrow> int \<Rightarrow> real" where
  "blended_score scores1 idxs1 scores2 idxs2 i =
     (let s1 = (if i \<in> set idxs1 then scores1 ! list_index idxs1 i else 0);
          s2 = (if i \<in> set idxs2 then scores2 ! list_index idxs2 i else 0)
      in min s1 s2)"

definition rank_candidates ::
  "set_iteration \<Rightarrow> real list \<Rightarrow> int list \<Rightarrow> real list \<Rightarrow> int list \<Rightarrow> int list" where
  "rank_candidates it scores1 idxs1 scores2 idxs2 =
     (let combined = it idxs1 idxs2
      in sorted_reverse (blended_score scores1 idxs1 scores2 idxs2) combined)"

definition remove_seeds :: "nat \<Rightarrow> nat \<Rightarrow> int list \<Rightarrow> int list" where
  "remove_seeds idx1 idx2 ranked = filter (\<lambda>i. i \<noteq> int idx1 \<and> i \<noteq> int idx2) ranked"

definition get_combined_genres :: "movie list \<Rightarrow> nat \<Rightarrow> nat \<Rightarrow> py_error + string set" where
  "get_combined_genres df idx1 idx2 =
     (case loc df idx1 of Inl e \<Rightarrow> Inl e
      | Inr m1 \<Rightarrow>
          (case loc df idx2 of Inl e \<Rightarrow> Inl e
           | Inr m2 \<Rightarrow> Inr (set (py_split (genres_str m1 @ '' '' @ genres_str m2)))))"

definition genre_bonus :: "movie \<Rightarrow> string set \<Rightarrow> real" where
  "genre_bonus row seed_genres =
     (let movie_genres = set (py_split (genres_str row));
          overlap = card (movie_genres \<inter> seed_genres)
      in real overlap / (real (card seed_genres) + 1 / 10 ^ 9))"

definition with_genre_score :: "movie \<Rightarrow> real \<Rightarrow> recommendation" where
  "with_genre_score m g = movie.extend m (recommendation.fields g)"

text \<open>
  Lines 57 to 81 of \<^verbatim>\<open>recommend\<close>: everything after the two searches. The selection
  \<^verbatim>\<open>ranked[:top_n]\<close> is never empty for a positive \<^verbatim>\<open>top_n\<close>, because forty result
  slots always leave a label besides the two seed rows. For an empty selection (a
  \<^verbatim>\<open>top_n\<close> of zero or below) \<^verbatim>\<open>DataFrame.apply\<close> yields a frame instead of a column,
  and what the assignment of the score column then does depends on the pandas version;
  the model returns the empty result there, and the statements below are about the
  entries of non-empty results.
\<close>

definition recommend_from_searches ::
  "set_iteration \<Rightarrow> movie list \<Rightarrow> nat \<Rightarrow> nat \<Rightarrow> real list \<Rightarrow> int list \<Rightarrow> real list \<Rightarrow> int list
     \<Rightarrow> int \<Rightarrow> py_error + recommendation list" where
  "recommend_from_searches it df idx1 idx2 scores1 idxs1 scores2 idxs2 top_n =
     (let ranked = rank_candidates it scores1 idxs1 scores2 idxs2;
          ranked = remove_seeds idx1 idx2 ranked
      in case iloc df (py_prefix top_n ranked) of Inl e \<Rightarrow> Inl e
         | Inr recs \<Rightarrow>
             (case get_combined_genres df idx1 idx2 of Inl e \<Rightarrow> Inl e
              | Inr seed_genres \<Rightarrow>
                  Inr (map (\<lambda>row. with_genre_score row (genre_bonus row seed_genres)) recs)))"

text \<open>The vector work of a call, in the order it is performed.\<close>

datatype vector_op = EmbeddingLookup nat | IndexSearch vec nat

definition recommend ::
  "set_iteration \<Rightarrow> movie_recommender \<Rightarrow> int \<Rightarrow> int \<Rightarrow> int
     \<Rightarrow> (py_error + recommendation list) \<times> vector_op list" where
  "recommend it r movie_id1 movie_id2 top_n =
     (let em = emb_manager r in
      case id_to_index em movie_id1 of
        None \<Rightarrow> (Inl (ValueError ''One or both movie IDs not found''), [])
      | Some idx1 \<Rightarrow>
     (case id_to_index em movie_id2 of
        None \<Rightarrow> (Inl (ValueError ''One or both movie IDs not found''), [])
      | Some idx2 \<Rightarrow>
     (if \<not> idx1 < length (embeddings em) then (Inl IndexError, [EmbeddingLookup idx1])
      else let emb1 = embeddings em ! idx1 in
      if \<not> idx2 < length (embeddings em)
      then (Inl IndexError, [EmbeddingLookup idx1, EmbeddingLookup idx2])
      else let emb2 = embeddings em ! idx2 in
      case search_similar em emb1 40 of
        Inl e \<Rightarrow> (Inl e, [EmbeddingLookup idx1, EmbeddingLookup idx2, IndexSearch emb1 40])
      | Inr (scores1, idxs1) \<Rightarrow>
     (case search_similar em emb2 40 of
        Inl e \<Rightarrow> (Inl e, [EmbeddingLookup idx1, EmbeddingLookup idx2,
                          IndexSearch emb1 40, IndexSearch emb2 40])
      | Inr (scores2, idxs2) \<Rightarrow>
          (recommend_from_searches it (movies_df r) idx1 idx2 scores1 idxs1 scores2 idxs2 top_n,
           [EmbeddingLookup idx1, EmbeddingLookup idx2,
            IndexSearch emb1 40, IndexSearch emb2 40])))))"

section \<open>The earlier single-file application\<close>

text \<open>\<^verbatim>\<open>recommend_movies\<close> of the top-level \<^verbatim>\<open>app.py\<close> works on the module's globals
  (here the same record) and returns either a message string or a data frame of the
  five catalogue columns.\<close>

datatype legacy_result = Message string | Frame "movie list"

definition recommend_movies ::
  "set_iteration \<Rightarrow> movie_recommender \<Rightarrow> int \<Rightarrow> int \<Rightarrow> int
     \<Rightarrow> (py_error + legacy_result) \<times> vector_op list" where
  "recommend_movies it r movie_id1 movie_id2 top_n =
     (let em = emb_manager r in
      case id_to_index em movie_id1 of
        None \<Rightarrow> (Inr (Message ''Movie ID not found''), [])
      | Some idx1 \<Rightarrow>
     (case id_to_index em movie_id2 of
        None \<Rightarrow> (Inr (Message ''Movie ID not found''), [])
      | Some idx2 \<Rightarrow>
     (if \<not> idx1 < length (embeddings em) then (Inl IndexError, [EmbeddingLookup idx1])
      else let emb1 = embeddings em ! idx1 in
      if \<not> idx2 < length (embeddings em)
      then (Inl IndexError, [EmbeddingLookup idx1, EmbeddingLookup idx2])
      else let emb2 = embeddings em ! idx2 in
      case index_search (index em) emb1 40 of
        Inl e \<Rightarrow> (Inl e, [EmbeddingLookup idx1, EmbeddingLookup idx2, IndexSearch emb1 40])
      | Inr (scores1, idxs1) \<Rightarrow>
     (case index_search (index em) emb2 40 of
        Inl e \<Rightarrow> (Inl e, [EmbeddingLookup idx1, EmbeddingLookup idx2,
                          IndexSearch emb1 40, IndexSearch emb2 40])
      | Inr (scores2, idxs2) \<Rightarrow>
          ((let ranked = rank_candidates it scores1 idxs1 scores2 idxs2;
                ranked = remove_seeds idx1 idx2 ranked
            in case iloc (movies_df r) (py_prefix top_n ranked) of Inl e \<Rightarrow> Inl e
               | Inr recs \<Rightarrow>
                   (case get_combined_genres (movies_df r) idx1 idx2 of Inl e \<Rightarrow> Inl e
                    | Inr seed_genres \<Rightarrow>
                        (let score = map (\<lambda>row. genre_bonus row seed_genres) recs
                         in Inr (Frame recs)))),
           [EmbeddingLookup idx1, EmbeddingLookup idx2,
            IndexSearch emb1 40, IndexSearch emb2 40])))))"

section \<open>Vocabulary of the specification\<close>


text \<open>The specification's seed genre set: the union of the whitespace-separated genre
  tokens of the two seeds.\<close>

definition spec_seed_genre_set :: "movie list \<Rightarrow> nat \<Rightarrow> nat \<Rightarrow> string set" where
  "spec_seed_genre_set df idx1 idx2 =
     set (py_split (genres_str (df ! idx1))) \<union> set (py_split (genres_str (df ! idx2)))"

section \<open>Set iteration orders and small catalogues used in examples\<close>

definition ascending_iteration :: set_iteration where
  "ascending_iteration xs ys = sort (remdups (xs @ ys))"

definition descending_iteration :: set_iteration where
  "descending_iteration xs ys = rev (sort (remdups (xs @ ys)))"

definition insertion_iteration :: set_iteration where
  "insertion_iteration xs ys = remdups (xs @ ys)"

definition toy_movie :: "int \<Rightarrow> string \<Rightarrow> string \<Rightarrow> movie" where
  "toy_movie i t g = \<lparr>movie_id = i, title = t, overview = [], vote_average = 7, genres_str = g\<rparr>"

text \<open>Three movies with unit vectors in the plane; rows 0, 1, 2 have identifiers 10, 20, 30.\<close>

definition toy3_vectors :: "vec list" where
  "toy3_vectors = [[1, 0], [0, 1], [3 / 5, 4 / 5]]"

definition toy3 :: movie_recommender where
  "toy3 = \<lparr>emb_manager = build_embeddings toy3_vectors [10, 20, 30],
           movies_df = [toy_movie 10 ''A'' ''Action Drama'', toy_movie 20 ''B'' ''Drama'',
                        toy_movie 30 ''C'' ''Comedy Drama'']\<rparr>"

text \<open>Four movies; row 2 is nearer to row 0 and row 3 is nearer to row 1, each as near to
  the other seed as its counterpart is.\<close>

definition toy4 :: movie_recommender where
  "toy4 = \<lparr>emb_manager = build_embeddings [[1, 0], [0, 1], [4 / 5, 3 / 5], [3 / 5, 4 / 5]]
                           [10, 20, 30, 40],
           movies_df = [toy_movie 10 ''A'' ''Action'', toy_movie 20 ''B'' ''Drama'',
                        toy_movie 30 ''C'' ''Action Comedy'', toy_movie 40 ''D'' ''Drama War'']\<rparr>"

text \<open>A catalogue with a single movie.\<close>

definition toy1 :: movie_recommender where
  "toy1 = \<lparr>emb_manager = build_embeddings [[1, 0]] [10],
           movies_df = [toy_movie 10 ''A'' ''Action'']\<rparr>"

section \<open>Facts about the primitives\<close>

lemma set_sorted_reverse: "set (sorted_reverse key xs) = set xs"
  by (simp add: sorted_reverse_def)

lemma length_sorted_reverse: "length (sorted_reverse key xs) = length xs"
  by (simp add: sorted_reverse_def)

lemma distinct_sorted_reverse: "distinct (sorted_reverse key xs) = distinct xs"
  by (simp add: sorted_reverse_def)

lemma mset_sorted_reverse: "mset (sorted_reverse key xs) = mset xs"
  by (simp add: sorted_reverse_def)

lemma sorted_reverse_descending:
  "sorted_wrt (\<lambda>a b. key b \<le> key a) (sorted_reverse key xs)"
proof -
  have "sorted (map key (sort_key key (rev xs)))" by simp
  then have "sorted_wrt (\<lambda>a b. key a \<le> key b) (sort_key key (rev xs))"
    by (simp add: sorted_wrt_map)
  then show ?thesis
    by (simp add: sorted_reverse_def sorted_wrt_rev)
qed


lemma list_index_less: "x \<in> set xs \<Longrightarrow> list_index xs x < length xs"
  by (induction xs) auto



lemma split_acc_append:
  "is_space c \<Longrightarrow> split_acc w (a @ c # b) = split_acc w a @ split_acc [] b"
  by (induction a arbitrary: w) simp_all

lemma is_space_blank: "is_space (CHR '' '')"
  by (simp add: is_space_def)

lemma py_split_join: "py_split (a @ '' '' @ b) = py_split a @ py_split b"
  using split_acc_append [OF is_space_blank, of "[]" a b] by (simp add: py_split_def)



lemma is_set_union_insertion: "is_set_union insertion_iteration"
  by (simp add: is_set_union_def insertion_iteration_def)

section \<open>Unknown seed identifiers\<close>

text \<open>
  C5 (as amended). When at least one seed identifier is absent from the identifier
  mapping, the call ends before any embedding lookup or index search: the log of vector
  operations is empty. \<^verbatim>\<open>MovieRecommender.recommend\<close> raises
  \<^verbatim>\<open>ValueError("One or both movie IDs not found")\<close>; \<^verbatim>\<open>recommend_movies\<close> returns the
  string \<^verbatim>\<open>"Movie ID not found"\<close> as its ordinary value.
\<close>

theorem C5_unknown_id_stops_before_vector_work:
  assumes "id_to_index (emb_manager r) a = None \<or> id_to_index (emb_manager r) b = None"
  shows "recommend it r a b n = (Inl (ValueError ''One or both movie IDs not found''), [])
       \<and> recommend_movies it r a b n = (Inr (Message ''Movie ID not found''), [])"
  using assms by (auto simp: recommend_def recommend_movies_def Let_def split: option.splits)

lemma toy3_unknown_id: "id_to_index (emb_manager toy3) 999999999 = None"
  by code_simp

theorem C5_unknown_id_witness:
  "(id_to_index (emb_manager toy3) 999999999 = None \<or> id_to_index (emb_manager toy3) 20 = None)
   \<and> recommend ascending_iteration toy3 999999999 20 6
       = (Inl (ValueError ''One or both movie IDs not found''), [])
   \<and> recommend_movies ascending_iteration toy3 999999999 20 6
       = (Inr (Message ''Movie ID not found''), [])"
proof -
  have h: "id_to_index (emb_manager toy3) 999999999 = None \<or> id_to_index (emb_manager toy3) 20 = None"
    by (simp add: toy3_unknown_id)
  from C5_unknown_id_stops_before_vector_work [OF h] h show ?thesis by blast
qed

text \<open>C5, as the claim states it, fails on \<^verbatim>\<open>recommend_movies\<close>: the call with an unknown
  identifier does not fail, it returns a message string.\<close>

theorem C5_legacy_returns_string_counterexample:
  "fst (recommend_movies ascending_iteration toy3 999999999 20 6) = Inr (Message ''Movie ID not found'')"
  by (simp add: recommend_movies_def toy3_unknown_id)

section \<open>Candidate pool and blended score\<close>









section \<open>Ranking\<close>




section \<open>Index search\<close>

lemma index_search_result:
  assumes "length q = faiss_d ix" and "0 < k"
  shows "index_search ix q k =
     Inr (map fst (take k (sorted_reverse fst (scored_rows (faiss_xb ix) q)))
            @ replicate (k - min k (length (faiss_xb ix))) FLT_LOWEST,
          map snd (take k (sorted_reverse fst (scored_rows (faiss_xb ix) q)))
            @ replicate (k - min k (length (faiss_xb ix))) (- 1))"
  using assms
  by (simp add: index_search_def Let_def scored_rows_def length_sorted_reverse min.commute)

lemma length_scored_rows: "length (scored_rows xb q) = length xb"
  by (simp add: scored_rows_def)

lemma scored_rows_mem:
  "e \<in> set (scored_rows xb q) \<longleftrightarrow> (\<exists>i<length xb. e = (inner_product q (xb ! i), int i))"
  by (auto simp: scored_rows_def)

lemma distinct_labels_scored: "distinct (map snd (scored_rows xb q))"
  by (simp add: scored_rows_def distinct_map comp_def inj_on_def)

lemma distinct_labels_sorted: "distinct (map snd (sorted_reverse fst (scored_rows xb q)))"
proof -
  have "mset (map snd (sorted_reverse fst (scored_rows xb q))) = mset (map snd (scored_rows xb q))"
    by (simp add: mset_sorted_reverse)
  then show ?thesis
    using distinct_labels_scored [of xb q] by (metis mset_eq_imp_distinct_iff)
qed

lemma best_properties:
  fixes xb q k
  defines "sr \<equiv> sorted_reverse fst (scored_rows xb q)"
  defines "m \<equiv> min k (length xb)"
  shows "length (take k sr) = m"
    and "sorted_wrt (\<lambda>a b. b \<le> a) (map fst (take k sr))"
    and "distinct (map snd (take k sr))"
    and "\<forall>j<m. 0 \<le> snd (take k sr ! j) \<and> snd (take k sr ! j) < int (length xb)
               \<and> fst (take k sr ! j) = inner_product q (xb ! nat (snd (take k sr ! j)))"
    and "\<forall>r<length xb. int r \<notin> set (map snd (take k sr))
               \<longrightarrow> (\<forall>j<m. inner_product q (xb ! r) \<le> fst (take k sr ! j))"
proof -
  have len: "length sr = length xb"
    by (simp add: sr_def length_sorted_reverse scored_rows_def)
  show lt: "length (take k sr) = m" by (simp add: len m_def min.commute)
  have desc: "sorted_wrt (\<lambda>a b. fst b \<le> fst a) sr"
    unfolding sr_def by (rule sorted_reverse_descending)
  have "sorted_wrt (\<lambda>a b. fst b \<le> fst a) (take k sr)"
    using desc by (rule sorted_wrt_take)
  then show "sorted_wrt (\<lambda>a b. b \<le> a) (map fst (take k sr))"
    by (simp add: sorted_wrt_map)
  have "distinct (take k (map snd sr))"
    using distinct_labels_sorted [of xb q] unfolding sr_def by (rule distinct_take)
  then show "distinct (map snd (take k sr))" by (simp add: take_map)
  have mem: "\<And>e. e \<in> set sr \<Longrightarrow> \<exists>i<length xb. e = (inner_product q (xb ! i), int i)"
    by (simp add: sr_def set_sorted_reverse scored_rows_mem)
  show "\<forall>j<m. 0 \<le> snd (take k sr ! j) \<and> snd (take k sr ! j) < int (length xb)
               \<and> fst (take k sr ! j) = inner_product q (xb ! nat (snd (take k sr ! j)))"
  proof (intro allI impI)
    fix j assume "j < m"
    then have "take k sr ! j \<in> set (take k sr)" using lt by (metis nth_mem)
    then have "take k sr ! j \<in> set sr" by (rule in_set_takeD)
    from mem [OF this] show "0 \<le> snd (take k sr ! j) \<and> snd (take k sr ! j) < int (length xb)
               \<and> fst (take k sr ! j) = inner_product q (xb ! nat (snd (take k sr ! j)))"
      by auto
  qed
  show "\<forall>r<length xb. int r \<notin> set (map snd (take k sr))
               \<longrightarrow> (\<forall>j<m. inner_product q (xb ! r) \<le> fst (take k sr ! j))"
  proof (intro allI impI)
    fix r j assume r: "r < length xb" and out: "int r \<notin> set (map snd (take k sr))" and j: "j < m"
    let ?e = "(inner_product q (xb ! r), int r)"
    have "?e \<in> set sr" using r by (auto simp: sr_def set_sorted_reverse scored_rows_mem)
    moreover have "?e \<notin> set (take k sr)" using out by force
    ultimately have d: "?e \<in> set (drop k sr)"
      by (metis Un_iff append_take_drop_id set_append)
    have x: "take k sr ! j \<in> set (take k sr)" using j lt by (metis nth_mem)
    have "sorted_wrt (\<lambda>a b. fst b \<le> fst a) (take k sr @ drop k sr)" using desc by simp
    then have "\<forall>a\<in>set (take k sr). \<forall>b\<in>set (drop k sr). fst b \<le> fst a"
      by (simp only: sorted_wrt_append) blast
    with x d show "inner_product q (xb ! r) \<le> fst (take k sr ! j)" by force
  qed
qed

lemma toy3_index: "index (emb_manager toy3) = build_index toy3_vectors"
  by (simp add: toy3_def build_embeddings_def)

lemma toy3_dim: "length [0, 1 :: real] = faiss_d (index (emb_manager toy3))"
  by (simp add: toy3_index build_index_def toy3_vectors_def)

text \<open>
  C4 (as amended). For an index built over \<open>N\<close> vectors, a query of the index's
  dimension and a positive \<open>k\<close>, \<^verbatim>\<open>search_similar\<close> returns two parallel sequences of
  exactly \<open>k\<close> entries. The first \<open>min k N\<close> entries are distinct valid rows in
  \<open>[0, N)\<close>, each with the inner product of the query and the stored vector of that row
  as its score, in descending order of score, and no row left out scores higher than a
  returned one. The remaining \<open>k - min k N\<close> entries are padding: the label \<open>-1\<close> with
  the lowest \<^verbatim>\<open>float32\<close> as score.
\<close>

theorem C4_search_similar_result:
  assumes built: "index em = build_index embs"
      and dim: "length q = faiss_d (index em)"
      and k: "0 < k"
  shows "\<exists>scores idxs. search_similar em q k = Inr (scores, idxs)
     \<and> length scores = k \<and> length idxs = k
     \<and> sorted_wrt (\<lambda>a b. b \<le> a) (take (min k (length embs)) scores)
     \<and> distinct (take (min k (length embs)) idxs)
     \<and> (\<forall>j < min k (length embs).
          0 \<le> idxs ! j \<and> idxs ! j < int (length embs)
          \<and> scores ! j = inner_product q (embs ! nat (idxs ! j)))
     \<and> (\<forall>j. min k (length embs) \<le> j \<and> j < k \<longrightarrow> idxs ! j = - 1 \<and> scores ! j = FLT_LOWEST)
     \<and> (\<forall>r < length embs. int r \<notin> set (take (min k (length embs)) idxs)
          \<longrightarrow> (\<forall>j < min k (length embs). inner_product q (embs ! r) \<le> scores ! j))"
proof -
  define best where "best = take k (sorted_reverse fst (scored_rows embs q))"
  define m where "m = min k (length embs)"
  define scores where "scores = map fst best @ replicate (k - m) FLT_LOWEST"
  define idxs where "idxs = map snd best @ replicate (k - m) (- 1 :: int)"
  have xb: "faiss_xb (index em) = embs" by (simp add: built build_index_def)
  have res: "search_similar em q k = Inr (scores, idxs)"
    unfolding search_similar_def scores_def idxs_def best_def m_def
    using index_search_result [OF dim k] by (simp add: xb)
  note bp = best_properties [where k = k and xb = embs and q = q, folded best_def m_def]
  have lb: "length best = m" by (rule bp(1))
  have mk: "m \<le> k" by (simp add: m_def)
  have ts: "take m scores = map fst best" by (simp add: scores_def lb)
  have ti: "take m idxs = map snd best" by (simp add: idxs_def lb)
  have ns: "\<And>j. j < m \<Longrightarrow> scores ! j = fst (best ! j)"
    by (simp add: scores_def nth_append lb)
  have ni: "\<And>j. j < m \<Longrightarrow> idxs ! j = snd (best ! j)"
    by (simp add: idxs_def nth_append lb)
  have c1: "length scores = k \<and> length idxs = k"
    using mk by (simp add: scores_def idxs_def lb)
  have c2: "sorted_wrt (\<lambda>a b. b \<le> a) (take m scores)" using bp(2) by (simp add: ts)
  have c3: "distinct (take m idxs)" using bp(3) by (simp add: ti)
  have c4: "\<forall>j<m. 0 \<le> idxs ! j \<and> idxs ! j < int (length embs)
               \<and> scores ! j = inner_product q (embs ! nat (idxs ! j))"
    using bp(4) by (simp add: ns ni)
  have c5: "\<forall>j. m \<le> j \<and> j < k \<longrightarrow> idxs ! j = - 1 \<and> scores ! j = FLT_LOWEST"
  proof (intro allI impI)
    fix j assume j: "m \<le> j \<and> j < k"
    then have "j - m < k - m" by arith
    with j show "idxs ! j = - 1 \<and> scores ! j = FLT_LOWEST"
      by (simp add: scores_def idxs_def nth_append lb)
  qed
  have c6: "\<forall>r<length embs. int r \<notin> set (take m idxs)
               \<longrightarrow> (\<forall>j<m. inner_product q (embs ! r) \<le> scores ! j)"
    using bp(5) by (simp add: ti ns)
  from res c1 c2 c3 c4 c5 c6 show ?thesis unfolding m_def by blast
qed

theorem C4_search_similar_witness:
  "index (emb_manager toy3) = build_index toy3_vectors
   \<and> length [0, 1 :: real] = faiss_d (index (emb_manager toy3))
   \<and> (0::nat) < 40
   \<and> (\<exists>scores idxs. search_similar (emb_manager toy3) [0, 1] 40 = Inr (scores, idxs)
     \<and> length scores = 40 \<and> length idxs = 40
     \<and> sorted_wrt (\<lambda>a b. b \<le> a) (take (min 40 (length toy3_vectors)) scores)
     \<and> distinct (take (min 40 (length toy3_vectors)) idxs)
     \<and> (\<forall>j < min 40 (length toy3_vectors).
          0 \<le> idxs ! j \<and> idxs ! j < int (length toy3_vectors)
          \<and> scores ! j = inner_product [0, 1] (toy3_vectors ! nat (idxs ! j)))
     \<and> (\<forall>j. min 40 (length toy3_vectors) \<le> j \<and> j < 40 \<longrightarrow> idxs ! j = - 1 \<and> scores ! j = FLT_LOWEST)
     \<and> (\<forall>r < length toy3_vectors. int r \<notin> set (take (min 40 (length toy3_vectors)) idxs)
          \<longrightarrow> (\<forall>j < min 40 (length toy3_vectors). inner_product [0, 1] (toy3_vectors ! r) \<le> scores ! j)))"
proof -
  have k: "(0::nat) < 40" by simp
  from C4_search_similar_result [OF toy3_index toy3_dim k] toy3_index toy3_dim k
  show ?thesis by (intro conjI) assumption+
qed

text \<open>
  C4, as the claim states it, fails when \<open>k\<close> exceeds the number of stored vectors:
  over three vectors a search with \<open>k = 40\<close> returns 40 entries, not \<open>min 40 3 = 3\<close>,
  and the entry at position 3 has the label \<open>-1\<close>, which is no row of the index.
\<close>

theorem C4_padding_counterexample:
  "search_similar (emb_manager toy3) [0, 1] 40
     = Inr ([1, 4 / 5, 0] @ replicate 37 FLT_LOWEST, [1, 2, 0] @ replicate 37 (- 1))
   \<and> length ([1, 2, 0] @ replicate 37 (- 1 :: int)) = 40
   \<and> min 40 (length (embeddings (emb_manager toy3))) = 3
   \<and> ([1, 2, 0] @ replicate 37 (- 1 :: int)) ! 3 = - 1"
  by code_simp

section \<open>Anatomy of a successful call\<close>

lemma recommend_Inr_cases:
  assumes "fst (recommend it r a b n) = Inr rows"
  obtains idx1 idx2 scores1 idxs1 scores2 idxs2 where
    "id_to_index (emb_manager r) a = Some idx1"
    "id_to_index (emb_manager r) b = Some idx2"
    "idx1 < length (embeddings (emb_manager r))"
    "idx2 < length (embeddings (emb_manager r))"
    "search_similar (emb_manager r) (embeddings (emb_manager r) ! idx1) 40 = Inr (scores1, idxs1)"
    "search_similar (emb_manager r) (embeddings (emb_manager r) ! idx2) 40 = Inr (scores2, idxs2)"
    "recommend_from_searches it (movies_df r) idx1 idx2 scores1 idxs1 scores2 idxs2 n = Inr rows"
  using assms
  by (auto simp: recommend_def Let_def split: option.splits if_splits sum.splits prod.splits)

lemma recommend_from_searches_Inr:
  assumes "recommend_from_searches it df idx1 idx2 scores1 idxs1 scores2 idxs2 n = Inr rows"
  obtains recs seed_genres where
    "iloc df (py_prefix n (remove_seeds idx1 idx2 (rank_candidates it scores1 idxs1 scores2 idxs2))) = Inr recs"
    "get_combined_genres df idx1 idx2 = Inr seed_genres"
    "rows = map (\<lambda>row. with_genre_score row (genre_bonus row seed_genres)) recs"
  using assms
  by (auto simp: recommend_from_searches_def Let_def split: sum.splits)

lemma py_split_join_blank: "py_split (a @ CHR '' '' # b) = py_split a @ py_split b"
  using split_acc_append [OF is_space_blank, of "[]" a b] by (simp add: py_split_def)

lemma get_combined_genres_Inr:
  assumes "get_combined_genres df idx1 idx2 = Inr seed_genres"
  shows "idx1 < length df \<and> idx2 < length df \<and> seed_genres = spec_seed_genre_set df idx1 idx2"
  using assms
  by (auto simp: get_combined_genres_def loc_def spec_seed_genre_set_def py_split_join_blank
      split: if_splits)

lemma with_genre_score_fields:
  "genre_score (with_genre_score m g) = g"
  "genres_str (with_genre_score m g) = genres_str m"
  "movie_id (with_genre_score m g) = movie_id m"
  "movie.truncate (with_genre_score m g) = m"
  by (simp_all add: with_genre_score_def movie.defs recommendation.defs)

lemma genre_bonus_bounds:
  assumes "finite seed_genres"
  shows "0 \<le> genre_bonus row seed_genres \<and> genre_bonus row seed_genres \<le> 1"
proof -
  let ?o = "card (set (py_split (genres_str row)) \<inter> seed_genres)"
  have "?o \<le> card seed_genres" using assms by (simp add: card_mono)
  then have "real ?o \<le> real (card seed_genres) + 1 / 10 ^ 9" by simp
  moreover have "0 < real (card seed_genres) + 1 / 10 ^ 9" by (simp add: add_nonneg_pos)
  ultimately show ?thesis by (simp add: genre_bonus_def Let_def)
qed

lemma toy3_ids:
  "id_to_index (emb_manager toy3) 10 = Some 0"
  "id_to_index (emb_manager toy3) 20 = Some 1"
  "id_to_index (emb_manager toy3) 30 = Some 2"
  by code_simp+

lemma toy3_recommend_20_30:
  "fst (recommend ascending_iteration toy3 20 30 6)
     = Inr [with_genre_score (toy_movie 10 ''A'' ''Action Drama'') (1000000000 / 2000000001),
            with_genre_score (toy_movie 30 ''C'' ''Comedy Drama'') (2000000000 / 2000000001)]"
  by code_simp

section \<open>Genre score\<close>

text \<open>
  C8. Every entry returned by \<^verbatim>\<open>recommend\<close> carries as its genre score the number of
  its own genre tokens that lie in the seed genre set, divided by the size of the seed
  genre set plus \<open>10\<^sup>-\<^sup>9\<close>, where the seed genre set is the union of the
  whitespace-separated genre tokens of the two seeds; and when the seed genre set is not
  empty the score lies between 0 and 1. (Arithmetic is that of the reals; the source
  computes the same quotient in double precision.)
\<close>

theorem C8_genre_score_formula_and_bounds:
  assumes res: "fst (recommend it r a b n) = Inr rows"
      and a: "id_to_index (emb_manager r) a = Some idx1"
      and b: "id_to_index (emb_manager r) b = Some idx2"
      and row: "row \<in> set rows"
  shows "genre_score row
           = real (card (set (py_split (genres_str row)) \<inter> spec_seed_genre_set (movies_df r) idx1 idx2))
             / (real (card (spec_seed_genre_set (movies_df r) idx1 idx2)) + 1 / 10 ^ 9)
       \<and> (spec_seed_genre_set (movies_df r) idx1 idx2 \<noteq> {}
            \<longrightarrow> 0 \<le> genre_score row \<and> genre_score row \<le> 1)"
proof -
  from res obtain i1 i2 scores1 idxs1 scores2 idxs2 where
      a': "id_to_index (emb_manager r) a = Some i1"
      and b': "id_to_index (emb_manager r) b = Some i2"
      and rfs: "recommend_from_searches it (movies_df r) i1 i2 scores1 idxs1 scores2 idxs2 n = Inr rows"
    by (rule recommend_Inr_cases)
  from a a' b b' have eq: "i1 = idx1" "i2 = idx2" by simp_all
  from rfs obtain recs seed_genres where
      g: "get_combined_genres (movies_df r) idx1 idx2 = Inr seed_genres"
      and rows: "rows = map (\<lambda>row. with_genre_score row (genre_bonus row seed_genres)) recs"
    unfolding eq by (rule recommend_from_searches_Inr)
  from g have sg: "seed_genres = spec_seed_genre_set (movies_df r) idx1 idx2"
    by (simp add: get_combined_genres_Inr)
  have fin: "finite seed_genres" by (simp add: sg spec_seed_genre_set_def)
  from row rows obtain m where m: "row = with_genre_score m (genre_bonus m seed_genres)"
    by auto
  have "genre_score row = genre_bonus m seed_genres" by (simp add: m with_genre_score_fields)
  moreover have "genres_str row = genres_str m" by (simp add: m with_genre_score_fields)
  ultimately show ?thesis
    using genre_bonus_bounds [OF fin, of m]
    by (simp add: genre_bonus_def Let_def sg)
qed

theorem C8_genre_score_witness:
  "fst (recommend ascending_iteration toy3 20 30 6)
     = Inr [with_genre_score (toy_movie 10 ''A'' ''Action Drama'') (1000000000 / 2000000001),
            with_genre_score (toy_movie 30 ''C'' ''Comedy Drama'') (2000000000 / 2000000001)]
   \<and> id_to_index (emb_manager toy3) 20 = Some 1
   \<and> id_to_index (emb_manager toy3) 30 = Some 2
   \<and> with_genre_score (toy_movie 10 ''A'' ''Action Drama'') (1000000000 / 2000000001)
       \<in> set [with_genre_score (toy_movie 10 ''A'' ''Action Drama'') (1000000000 / 2000000001),
               with_genre_score (toy_movie 30 ''C'' ''Comedy Drama'') (2000000000 / 2000000001)]
   \<and> genre_score (with_genre_score (toy_movie 10 ''A'' ''Action Drama'') (1000000000 / 2000000001))
       = real (card (set (py_split (genres_str
             (with_genre_score (toy_movie 10 ''A'' ''Action Drama'') (1000000000 / 2000000001))))
           \<inter> spec_seed_genre_set (movies_df toy3) 1 2))
         / (real (card (spec_seed_genre_set (movies_df toy3) 1 2)) + 1 / 10 ^ 9)
   \<and> spec_seed_genre_set (movies_df toy3) 1 2 \<noteq> {}
   \<and> 0 \<le> genre_score (with_genre_score (toy_movie 10 ''A'' ''Action Drama'') (1000000000 / 2000000001))
   \<and> genre_score (with_genre_score (toy_movie 10 ''A'' ''Action Drama'') (1000000000 / 2000000001)) \<le> 1"
proof -
  let ?row = "with_genre_score (toy_movie 10 ''A'' ''Action Drama'') (1000000000 / 2000000001)"
  have mem: "?row \<in> set [?row,
      with_genre_score (toy_movie 30 ''C'' ''Comedy Drama'') (2000000000 / 2000000001)]"
    by simp
  have ne: "spec_seed_genre_set (movies_df toy3) 1 2 \<noteq> {}"
    by (simp add: spec_seed_genre_set_def toy3_def toy_movie_def py_split_def is_space_def)
  from C8_genre_score_formula_and_bounds [OF toy3_recommend_20_30 toy3_ids(2) toy3_ids(3) mem]
    toy3_recommend_20_30 toy3_ids(2) toy3_ids(3) mem ne
  show ?thesis by blast
qed

section \<open>Exchanging the two seeds\<close>














section \<open>Catalogues with at least forty movies\<close>

lemma search_labels_valid:
  assumes res: "search_similar em q 40 = Inr (scores, idxs)"
      and big: "40 \<le> length (faiss_xb (index em))"
  shows "\<forall>i\<in>set idxs. 0 \<le> i \<and> i < int (length (faiss_xb (index em)))"
proof -
  let ?xb = "faiss_xb (index em)"
  let ?best = "take 40 (sorted_reverse fst (scored_rows ?xb q))"
  from res have dim: "length q = faiss_d (index em)"
    by (auto simp: search_similar_def index_search_def split: if_splits)
  have k: "(0::nat) < 40" by simp
  from big have "min 40 (length ?xb) = 40" by simp
  with index_search_result [OF dim k] res have "idxs = map snd ?best"
    by (simp add: search_similar_def)
  moreover have "\<forall>e\<in>set ?best. 0 \<le> snd e \<and> snd e < int (length ?xb)"
  proof
    fix e assume "e \<in> set ?best"
    then have "e \<in> set (scored_rows ?xb q)"
      by (auto dest: in_set_takeD simp: set_sorted_reverse)
    then show "0 \<le> snd e \<and> snd e < int (length ?xb)"
      by (auto simp: scored_rows_mem)
  qed
  ultimately show ?thesis by auto
qed

lemma length_py_prefix: "0 \<le> n \<Longrightarrow> length (py_prefix n xs) = min (nat n) (length xs)"
  by (simp add: py_prefix_def min.commute)

lemma set_py_prefix: "set (py_prefix n xs) \<subseteq> set xs"
  by (auto simp: py_prefix_def dest: in_set_takeD)

lemma distinct_py_prefix: "distinct xs \<Longrightarrow> distinct (py_prefix n xs)"
  by (simp add: py_prefix_def)

lemma iloc_nonneg:
  assumes "\<forall>k\<in>set ks. 0 \<le> k \<and> k < int (length df)"
  shows "iloc df ks = Inr (map (\<lambda>k. df ! nat k) ks)"
  using assms by (auto simp: iloc_def Let_def list_all_iff)

lemma ranked_without_seeds:
  assumes "is_set_union it"
  shows "distinct (remove_seeds idx1 idx2 (rank_candidates it scores1 idxs1 scores2 idxs2))"
    and "set (remove_seeds idx1 idx2 (rank_candidates it scores1 idxs1 scores2 idxs2))
           = (set idxs1 \<union> set idxs2) - {int idx1, int idx2}"
    and "sorted_wrt (\<lambda>a b. blended_score scores1 idxs1 scores2 idxs2 b
                             \<le> blended_score scores1 idxs1 scores2 idxs2 a)
           (remove_seeds idx1 idx2 (rank_candidates it scores1 idxs1 scores2 idxs2))"
  using assms
  by (auto simp: remove_seeds_def rank_candidates_def Let_def is_set_union_def
      distinct_sorted_reverse set_sorted_reverse sorted_reverse_descending
      intro!: sorted_wrt_filter)

text \<open>
  When the index holds at least 40 vectors, one per catalogue row, every label of the two
  result lists is a valid row. A successful call with positive \<^verbatim>\<open>top_n\<close> then returns
  the catalogue rows of distinct labels taken from the union of the two result lists
  without the two seed rows, and as many of them as \<^verbatim>\<open>top_n\<close> or, if fewer are
  eligible, all eligible ones.
\<close>

lemma recommend_on_large_catalogue:
  assumes res: "fst (recommend it r a b n) = Inr rows"
      and it: "is_set_union it"
      and n: "0 < n"
      and big: "40 \<le> length (faiss_xb (index (emb_manager r)))"
      and df: "length (movies_df r) = length (faiss_xb (index (emb_manager r)))"
      and a: "id_to_index (emb_manager r) a = Some idx1"
      and b: "id_to_index (emb_manager r) b = Some idx2"
  shows "\<exists>scores1 idxs1 scores2 idxs2 sel.
           search_similar (emb_manager r) (embeddings (emb_manager r) ! idx1) 40 = Inr (scores1, idxs1)
         \<and> search_similar (emb_manager r) (embeddings (emb_manager r) ! idx2) 40 = Inr (scores2, idxs2)
         \<and> map movie.truncate rows = map (\<lambda>i. movies_df r ! nat i) sel
         \<and> distinct sel
         \<and> set sel \<subseteq> (set idxs1 \<union> set idxs2) - {int idx1, int idx2}
         \<and> (\<forall>i\<in>set sel. 0 \<le> i \<and> i < int (length (movies_df r)))
         \<and> length rows = min (nat n) (card ((set idxs1 \<union> set idxs2) - {int idx1, int idx2}))"
proof -
  from res obtain i1 i2 scores1 idxs1 scores2 idxs2 where
      a': "id_to_index (emb_manager r) a = Some i1"
      and b': "id_to_index (emb_manager r) b = Some i2"
      and s1: "search_similar (emb_manager r) (embeddings (emb_manager r) ! i1) 40 = Inr (scores1, idxs1)"
      and s2: "search_similar (emb_manager r) (embeddings (emb_manager r) ! i2) 40 = Inr (scores2, idxs2)"
      and rfs: "recommend_from_searches it (movies_df r) i1 i2 scores1 idxs1 scores2 idxs2 n = Inr rows"
    by (rule recommend_Inr_cases)
  from a a' b b' have eq: "i1 = idx1" "i2 = idx2" by simp_all
  let ?F = "remove_seeds idx1 idx2 (rank_candidates it scores1 idxs1 scores2 idxs2)"
  let ?sel = "py_prefix n ?F"
  from rfs obtain recs seed_genres where
      il: "iloc (movies_df r) ?sel = Inr recs"
      and rows: "rows = map (\<lambda>row. with_genre_score row (genre_bonus row seed_genres)) recs"
    unfolding eq by (rule recommend_from_searches_Inr)
  note rk = ranked_without_seeds [OF it, where ?idx1.0 = idx1 and ?idx2.0 = idx2 and ?scores1.0 = scores1
      and ?idxs1.0 = idxs1 and ?scores2.0 = scores2 and ?idxs2.0 = idxs2]
  have valid: "\<forall>i\<in>set idxs1 \<union> set idxs2. 0 \<le> i \<and> i < int (length (movies_df r))"
    using search_labels_valid [OF s1 big] search_labels_valid [OF s2 big] by (auto simp: df)
  have sub: "set ?sel \<subseteq> (set idxs1 \<union> set idxs2) - {int idx1, int idx2}"
    using set_py_prefix [of n ?F] rk(2) by simp
  then have selv: "\<forall>i\<in>set ?sel. 0 \<le> i \<and> i < int (length (movies_df r))"
    using valid by blast
  from il iloc_nonneg [OF selv] have recs: "recs = map (\<lambda>k. movies_df r ! nat k) ?sel" by simp
  have tr: "map movie.truncate rows = map (\<lambda>i. movies_df r ! nat i) ?sel"
    by (simp add: rows recs with_genre_score_fields comp_def)
  have "length ?F = card ((set idxs1 \<union> set idxs2) - {int idx1, int idx2})"
    using distinct_card [OF rk(1)] rk(2) by simp
  then have len: "length rows = min (nat n) (card ((set idxs1 \<union> set idxs2) - {int idx1, int idx2}))"
    using n by (simp add: rows recs length_py_prefix)
  from s1 s2 tr distinct_py_prefix [OF rk(1)] sub selv len show ?thesis
    unfolding eq by blast
qed

section \<open>Catalogues with fewer than forty movies\<close>

text \<open>
  With fewer than 40 stored vectors each search result ends in padding entries with the
  label \<open>-1\<close>. The label is a member of both sets, it is not one of the two seed rows,
  and it has the lowest blended score, so it ends the ranking; when \<^verbatim>\<open>top_n\<close> reaches
  it, \<^verbatim>\<open>iloc\<close> reads position \<open>-1\<close>, the last row of the catalogue.
\<close>

text \<open>
  C3 (the code departs from the claim). On the three-movie catalogue the call with the
  seeds 20 and 30 (rows 1 and 2) and \<^verbatim>\<open>top_n = 6\<close> returns movie 10 and then movie 30,
  the second seed: after the seed rows are removed the ranking is \<open>[0, -1]\<close>, and
  position \<open>-1\<close> of the catalogue is row 2. The outcome is the same for the ascending
  and the descending iteration of the pool, and for \<^verbatim>\<open>recommend_movies\<close>.
\<close>

theorem C3_seed_returned_on_small_catalogue:
  "id_to_index (emb_manager toy3) 20 = Some 1
   \<and> id_to_index (emb_manager toy3) 30 = Some 2
   \<and> movies_df toy3 ! 2 = toy_movie 30 ''C'' ''Comedy Drama''
   \<and> search_similar (emb_manager toy3) (embeddings (emb_manager toy3) ! 2) 40
       = Inr ([1, 4 / 5, 3 / 5] @ replicate 37 FLT_LOWEST, [2, 1, 0] @ replicate 37 (- 1))
   \<and> fst (recommend ascending_iteration toy3 20 30 6)
       = Inr [with_genre_score (toy_movie 10 ''A'' ''Action Drama'') (1000000000 / 2000000001),
              with_genre_score (toy_movie 30 ''C'' ''Comedy Drama'') (2000000000 / 2000000001)]
   \<and> fst (recommend descending_iteration toy3 20 30 6)
       = fst (recommend ascending_iteration toy3 20 30 6)
   \<and> fst (recommend_movies ascending_iteration toy3 20 30 6)
       = Inr (Frame [toy_movie 10 ''A'' ''Action Drama'', toy_movie 30 ''C'' ''Comedy Drama''])"
  by code_simp

text \<open>
  C6 (the code departs from the claim). On the three-movie catalogue with the seeds 10
  and 20 the only eligible candidate is row 2, fewer than \<^verbatim>\<open>top_n = 6\<close>; the ranking
  without the seeds is \<open>[2, -1]\<close>, and the call returns two entries, movie 30 twice:
  the second one comes from the padding label.
\<close>

theorem C6_padding_row_returned_on_shortfall:
  "search_similar (emb_manager toy3) (embeddings (emb_manager toy3) ! 0) 40
       = Inr ([1, 3 / 5, 0] @ replicate 37 FLT_LOWEST, [0, 2, 1] @ replicate 37 (- 1))
   \<and> search_similar (emb_manager toy3) (embeddings (emb_manager toy3) ! 1) 40
       = Inr ([1, 4 / 5, 0] @ replicate 37 FLT_LOWEST, [1, 2, 0] @ replicate 37 (- 1))
   \<and> remove_seeds 0 1 (rank_candidates ascending_iteration
         ([1, 3 / 5, 0] @ replicate 37 FLT_LOWEST) ([0, 2, 1] @ replicate 37 (- 1))
         ([1, 4 / 5, 0] @ replicate 37 FLT_LOWEST) ([1, 2, 0] @ replicate 37 (- 1))) = [2, - 1]
   \<and> fst (recommend ascending_iteration toy3 10 20 6)
       = Inr [with_genre_score (toy_movie 30 ''C'' ''Comedy Drama'') (1000000000 / 2000000001),
              with_genre_score (toy_movie 30 ''C'' ''Comedy Drama'') (1000000000 / 2000000001)]
   \<and> fst (recommend descending_iteration toy3 10 20 6)
       = fst (recommend ascending_iteration toy3 10 20 6)"
  by code_simp

text \<open>
  C10 (the code departs from the claim). With the same seed twice the call succeeds, but
  on the three-movie catalogue \<^verbatim>\<open>recommend(30, 30, 6)\<close> returns movie 20, movie 10 and
  then movie 30 itself; on a catalogue with a single movie the call returns that movie.
\<close>

theorem C10_same_seed_returned_on_small_catalogue:
  "id_to_index (emb_manager toy3) 30 = Some 2
   \<and> movies_df toy3 ! 2 = toy_movie 30 ''C'' ''Comedy Drama''
   \<and> fst (recommend ascending_iteration toy3 30 30 6)
       = Inr [with_genre_score (toy_movie 20 ''B'' ''Drama'') (1000000000 / 2000000001),
              with_genre_score (toy_movie 10 ''A'' ''Action Drama'') (1000000000 / 2000000001),
              with_genre_score (toy_movie 30 ''C'' ''Comedy Drama'') (2000000000 / 2000000001)]
   \<and> fst (recommend descending_iteration toy3 30 30 6)
       = fst (recommend ascending_iteration toy3 30 30 6)
   \<and> fst (recommend ascending_iteration toy1 10 10 6)
       = Inr [with_genre_score (toy_movie 10 ''A'' ''Action'') (1000000000 / 1000000001)]"
  by code_simp

section \<open>The genre score in the earlier application\<close>

text \<open>With two known identifiers, \<^verbatim>\<open>recommend_movies\<close> returns what \<^verbatim>\<open>recommend\<close>
  returns, each entry cut back to the five catalogue columns.\<close>

lemma truncate_with_genre_score: "movie.truncate \<circ> (\<lambda>row. with_genre_score row (g row)) = id"
  by (rule ext) (simp add: with_genre_score_fields)

lemma recommend_movies_drops_genre_score:
  assumes "id_to_index (emb_manager r) a \<noteq> None" and "id_to_index (emb_manager r) b \<noteq> None"
  shows "fst (recommend_movies it r a b n)
       = (case fst (recommend it r a b n) of
            Inl e \<Rightarrow> Inl e
          | Inr rows \<Rightarrow> Inr (Frame (map movie.truncate rows)))"
  using assms
  by (auto simp: recommend_movies_def recommend_def recommend_from_searches_def search_similar_def
      Let_def truncate_with_genre_score
      split: option.splits sum.splits prod.splits)

text \<open>
  C9 (the code departs from the claim in \<^verbatim>\<open>recommend_movies\<close>). Both functions select
  the first \<^verbatim>\<open>top_n\<close> entries of the seed-filtered ranking and keep their order, but
  \<^verbatim>\<open>recommend_movies\<close> computes the genre score into a column \<^verbatim>\<open>score\<close> and returns
  only the five catalogue columns, so its caller receives no genre score;
  \<^verbatim>\<open>MovieRecommender.recommend\<close> returns the same entries with the score attached.
\<close>

theorem C9_legacy_result_without_genre_score:
  "fst (recommend_movies ascending_iteration toy4 10 20 2)
     = Inr (Frame [toy_movie 30 ''C'' ''Action Comedy'', toy_movie 40 ''D'' ''Drama War''])
   \<and> fst (recommend ascending_iteration toy4 10 20 2)
     = Inr [with_genre_score (toy_movie 30 ''C'' ''Action Comedy'') (1000000000 / 2000000001),
            with_genre_score (toy_movie 40 ''D'' ''Drama War'') (1000000000 / 2000000001)]"
  by code_simp

end
